theory Spec2Isabelle
  imports Main "HOL-Library.Word"
begin

section \<open>The collaborators of PocketbaseArduino.cpp\<close>

text \<open>
  The library talks to four collaborators that are not part of its own source file:
  the WiFi link (\<^verbatim>\<open>WiFi.status()\<close>), the HTTP client of the ESP8266 core
  (\<^verbatim>\<open>begin\<close>, \<^verbatim>\<open>GET\<close>, \<^verbatim>\<open>getString\<close>, \<^verbatim>\<open>end\<close>), the member \<^verbatim>\<open>pb\<close>
  (\<^verbatim>\<open>getBaseUrl\<close>, \<^verbatim>\<open>getRecord\<close>, \<^verbatim>\<open>addRecord\<close>) and the JSON decoder
  (\<^verbatim>\<open>deserializeJson\<close> followed by \<^verbatim>\<open>jsonResponse["code"].as<int>()\<close>).
  What they answer is a parameter of every operation (the record \<open>env\<close>); what the
  library asks of them, and what it prints on the serial console, is recorded as a list
  of events in the order of the calls. The collaborators answer with a value and do not
  throw; the parameters the source never tests against \<^verbatim>\<open>nullptr\<close> (\<^verbatim>\<open>recordId\<close>,
  \<^verbatim>\<open>jsonData\<close>, \<^verbatim>\<open>collectionName\<close>) are strings.
\<close>

datatype wl_status_t =
    WL_NO_SHIELD
  | WL_IDLE_STATUS
  | WL_NO_SSID_AVAIL
  | WL_SCAN_COMPLETED
  | WL_CONNECTED
  | WL_CONNECT_FAILED
  | WL_CONNECTION_LOST
  | WL_WRONG_PASSWORD
  | WL_DISCONNECTED

text \<open>
  Modelled from the spec: the header that declares \<^verbatim>\<open>PocketbaseArduinoException\<close> is
  not among the sources. Section 7 of the specification says the domain error is
  "raised as a named exception and caught at the same call boundary", and the only
  handler of \<^verbatim>\<open>getOne\<close> is \<^verbatim>\<open>catch (const std::exception &)\<close>, so the class is a
  \<^verbatim>\<open>std::exception\<close> carrying its message. \<open>StdException\<close> stands for every other
  \<^verbatim>\<open>std::exception\<close>.
\<close>

datatype exception =
    PocketbaseArduinoException string
  | StdException string

fun what :: "exception \<Rightarrow> string" where
  "what (PocketbaseArduinoException msg) = msg"
| "what (StdException msg) = msg"

datatype event =
    HttpBegin string
  | HttpGET
  | HttpGetString
  | HttpEnd
  | GetRecord string
  | AddRecord string string "string option" "string option" "string option"
  | SerialPrint string
  | SerialPrintln string
  | SerialPrintlnInt int

record env =
  WiFi_status :: wl_status_t
  http_GET :: "string \<Rightarrow> int"
  http_getString :: "string \<Rightarrow> string"
  pb_getRecord :: "string \<Rightarrow> string"
  pb_addRecord :: "string \<Rightarrow> string \<Rightarrow> string option \<Rightarrow> string option \<Rightarrow> string option \<Rightarrow> bool"
  json_code :: "string \<Rightarrow> int"

text \<open>
  The outcome of a \<^verbatim>\<open>try\<close> block: a \<^verbatim>\<open>return\<close> inside it, a \<^verbatim>\<open>throw\<close>, or control
  reaching its end.
\<close>

datatype 'a flow = Returned 'a | Thrown exception | FellThrough

section \<open>Strings\<close>

text \<open>
  \<^verbatim>\<open>String(unsigned int)\<close> renders its argument in base 10 without sign or padding.
  \<^verbatim>\<open>unsigned int\<close> has 32 bits on the ESP8266.
\<close>

definition digit_char :: "nat \<Rightarrow> char" where
  "digit_char d = ''0123456789'' ! d"

fun utoa :: "nat \<Rightarrow> string" where
  "utoa n = (if n < 10 then [digit_char n] else utoa (n div 10) @ [digit_char (n mod 10)])"

declare utoa.simps [simp del]

definition String_uint :: "32 word \<Rightarrow> string" where
  "String_uint v = utoa (unat v)"

section \<open>The client and its accessors\<close>

text \<open>
  Modelled from the spec: the header that declares the classes and the type of the
  member \<^verbatim>\<open>pb\<close> is not among the sources. Section 3 of the specification says the client
  "holds a base URL string; immutable after construction" and the accessor "holds a
  reference to the Client and a collection name string; stateless beyond that".
  The record of an accessor holds the \<^verbatim>\<open>pb\<close> it refers to as it reads it during one
  call; across calls the \<^verbatim>\<open>pb\<close> of the client is threaded (see the section on calls
  through the accessors of one client). The accessor's field is named \<open>coll_pb\<close> because
  a record field name cannot be shared.
\<close>

record PocketBase =
  BASE_URL :: string

definition getBaseUrl :: "PocketBase \<Rightarrow> string" where
  "getBaseUrl p = BASE_URL p"

record PocketbaseArduino =
  pb :: PocketBase

record PocketbaseCollection =
  coll_pb :: PocketBase
  collectionName :: string

definition new_PocketbaseArduino :: "string \<Rightarrow> PocketbaseArduino" where
  "new_PocketbaseArduino url = \<lparr>pb = \<lparr>BASE_URL = url\<rparr>\<rparr>"

definition collection :: "PocketbaseArduino \<Rightarrow> string \<Rightarrow> PocketbaseCollection" where
  "collection this name = \<lparr>coll_pb = pb this, collectionName = name\<rparr>"

section \<open>getList\<close>

text \<open>
  Lines 66 to 95: the URL, built by successive \<^verbatim>\<open>apiUrl += ...\<close>. An optional
  \<^verbatim>\<open>const char *\<close> parameter is \<open>None\<close> when it is \<^verbatim>\<open>nullptr\<close>.
\<close>

definition getList_url ::
  "PocketbaseCollection \<Rightarrow> 32 word \<Rightarrow> 32 word \<Rightarrow> string option \<Rightarrow> string option \<Rightarrow>
     string option \<Rightarrow> string option \<Rightarrow> bool \<Rightarrow> string" where
  "getList_url this page perPage sort' filter' expand fields' skipTotal =
     (let apiUrl = getBaseUrl (coll_pb this) @ ''/api/collections/'' @ collectionName this @ ''/records'';
          apiUrl = apiUrl @ (''?page='' @ String_uint page);
          apiUrl = apiUrl @ (''&perPage='' @ String_uint perPage);
          apiUrl = (case sort' of Some s \<Rightarrow> apiUrl @ (''&sort='' @ s) | None \<Rightarrow> apiUrl);
          apiUrl = (case filter' of Some f \<Rightarrow> apiUrl @ (''&filter='' @ f) | None \<Rightarrow> apiUrl);
          apiUrl = (case expand of Some e \<Rightarrow> apiUrl @ (''&expand='' @ e) | None \<Rightarrow> apiUrl);
          apiUrl = (case fields' of Some f \<Rightarrow> apiUrl @ (''&fields='' @ f) | None \<Rightarrow> apiUrl);
          apiUrl = (if skipTotal then apiUrl @ ''&skipTotal=1'' else apiUrl)
      in apiUrl)"

text \<open>
  Lines 63 to 129, the \<^verbatim>\<open>try\<close> block: the request is made only when the link is up;
  a positive response code returns the body from inside the block, before
  \<^verbatim>\<open>http.end()\<close>; any other code is printed and the client is ended. The destructors
  of the two local objects belong to the ESP8266 core and are not events here.
\<close>

definition getList_try ::
  "env \<Rightarrow> PocketbaseCollection \<Rightarrow> 32 word \<Rightarrow> 32 word \<Rightarrow> string option \<Rightarrow> string option \<Rightarrow>
     string option \<Rightarrow> string option \<Rightarrow> bool \<Rightarrow> string flow \<times> event list" where
  "getList_try env this page perPage sort' filter' expand fields' skipTotal =
     (let apiUrl = getList_url this page perPage sort' filter' expand fields' skipTotal in
      if WiFi_status env = WL_CONNECTED then
        (let httpResponseCode = http_GET env apiUrl in
         if httpResponseCode > 0 then
           (Returned (http_getString env apiUrl),
            [HttpBegin apiUrl, HttpGET, SerialPrint ''HTTP Response code: '',
             SerialPrintlnInt httpResponseCode, HttpGetString])
         else
           (FellThrough,
            [HttpBegin apiUrl, HttpGET, SerialPrint ''Error code: '',
             SerialPrintlnInt httpResponseCode, HttpEnd]))
      else (FellThrough, [SerialPrintln ''WiFi Disconnected'']))"

text \<open>Lines 61 to 137: the handler prints the message; every path but the return inside
  the block ends in \<^verbatim>\<open>return ""\<close>.\<close>

definition getList ::
  "env \<Rightarrow> PocketbaseCollection \<Rightarrow> 32 word \<Rightarrow> 32 word \<Rightarrow> string option \<Rightarrow> string option \<Rightarrow>
     string option \<Rightarrow> string option \<Rightarrow> bool \<Rightarrow> string \<times> event list" where
  "getList env this page perPage sort' filter' expand fields' skipTotal =
     (case getList_try env this page perPage sort' filter' expand fields' skipTotal of
        (Returned result, t) \<Rightarrow> (result, t)
      | (Thrown e, t) \<Rightarrow>
          ('''', t @ [SerialPrintln (''Exception occurred during the request: '' @ what e)])
      | (FellThrough, t) \<Rightarrow> ('''', t))"

section \<open>getOne\<close>

text \<open>Lines 156 to 169.\<close>

definition getOne_url ::
  "PocketbaseCollection \<Rightarrow> string \<Rightarrow> string option \<Rightarrow> string option \<Rightarrow> string" where
  "getOne_url this recordId expand fields' =
     (let apiUrl = getBaseUrl (coll_pb this) @ ''/api/collections/'' @ collectionName this
                     @ ''/records/'' @ recordId
      in case expand of
           Some e \<Rightarrow>
             (let apiUrl = apiUrl @ (''?expand='' @ e)
              in case fields' of Some f \<Rightarrow> apiUrl @ (''&fields='' @ f) | None \<Rightarrow> apiUrl)
         | None \<Rightarrow>
             (case fields' of Some f \<Rightarrow> apiUrl @ (''?fields='' @ f) | None \<Rightarrow> apiUrl))"

definition not_found_msg :: string where
  "not_found_msg = ''Error: The requested resource wasn'' @ [CHR 0x27] @ ''t found.''"

definition forbidden_msg :: string where
  "forbidden_msg = ''Error: Only admins can access this action.''"

text \<open>Lines 153 to 198, the \<^verbatim>\<open>try\<close> block.\<close>

definition getOne_try ::
  "env \<Rightarrow> PocketbaseCollection \<Rightarrow> string \<Rightarrow> string option \<Rightarrow> string option \<Rightarrow>
     string flow \<times> event list" where
  "getOne_try env this recordId expand fields' =
     (let apiUrl = getOne_url this recordId expand fields';
          result = pb_getRecord env apiUrl;
          code = json_code env result
      in if code = 404 then (Thrown (PocketbaseArduinoException not_found_msg), [GetRecord apiUrl])
         else if code = 403 then (Thrown (PocketbaseArduinoException forbidden_msg), [GetRecord apiUrl])
         else (Returned result, [GetRecord apiUrl]))"

text \<open>Lines 151 to 206.\<close>

definition getOne ::
  "env \<Rightarrow> PocketbaseCollection \<Rightarrow> string \<Rightarrow> string option \<Rightarrow> string option \<Rightarrow>
     string \<times> event list" where
  "getOne env this recordId expand fields' =
     (case getOne_try env this recordId expand fields' of
        (Returned result, t) \<Rightarrow> (result, t)
      | (Thrown e, t) \<Rightarrow>
          ('''', t @ [SerialPrintln (''Exception occurred during the request: '' @ what e)])
      | (FellThrough, t) \<Rightarrow> ('''', t))"

section \<open>create\<close>

definition create_failed_msg :: string where
  "create_failed_msg = ''Error: Failed to create record.''"

text \<open>Lines 220 to 233, the \<^verbatim>\<open>try\<close> block.\<close>

definition create_try ::
  "env \<Rightarrow> PocketbaseCollection \<Rightarrow> string \<Rightarrow> string option \<Rightarrow> string option \<Rightarrow> string option \<Rightarrow>
     string flow \<times> event list" where
  "create_try env this jsonData id' expand fields' =
     (let success = pb_addRecord env (collectionName this) jsonData id' expand fields'
      in if \<not> success
         then (Thrown (PocketbaseArduinoException create_failed_msg),
               [AddRecord (collectionName this) jsonData id' expand fields'])
         else (Returned '''', [AddRecord (collectionName this) jsonData id' expand fields']))"

text \<open>Lines 218 to 246: the first handler takes the library's own exception, the second
  every other \<^verbatim>\<open>std::exception\<close>.\<close>

definition create ::
  "env \<Rightarrow> PocketbaseCollection \<Rightarrow> string \<Rightarrow> string option \<Rightarrow> string option \<Rightarrow> string option \<Rightarrow>
     string \<times> event list" where
  "create env this jsonData id' expand fields' =
     (case create_try env this jsonData id' expand fields' of
        (Returned result, t) \<Rightarrow> (result, t)
      | (Thrown (PocketbaseArduinoException msg), t) \<Rightarrow> ('''', t @ [SerialPrintln msg])
      | (Thrown (StdException msg), t) \<Rightarrow>
          ('''', t @ [SerialPrintln (''Exception occurred during the request: '' @ msg)])
      | (FellThrough, t) \<Rightarrow> ('''', t))"

section \<open>The query string as the specification words it\<close>

text \<open>
  The specification lists the parameters of \<^verbatim>\<open>getList\<close> in a fixed order; \<open>page\<close> and
  \<open>perPage\<close> always have a value, an optional one has a value when it was supplied, and
  \<open>skipTotal\<close> has the value \<open>1\<close> when the flag is set and none otherwise.
\<close>

definition getList_params ::
  "32 word \<Rightarrow> 32 word \<Rightarrow> string option \<Rightarrow> string option \<Rightarrow> string option \<Rightarrow> string option \<Rightarrow> bool \<Rightarrow>
     (string \<times> string option) list" where
  "getList_params page perPage sort' filter' expand fields' skipTotal =
     [(''page'', Some (String_uint page)),
      (''perPage'', Some (String_uint perPage)),
      (''sort'', sort'),
      (''filter'', filter'),
      (''expand'', expand),
      (''fields'', fields'),
      (''skipTotal'', if skipTotal then Some ''1'' else None)]"

text \<open>The parameters that have a value, in the order of the list.\<close>

fun supplied :: "(string \<times> string option) list \<Rightarrow> (string \<times> string) list" where
  "supplied [] = []"
| "supplied ((k, None) # ps) = supplied ps"
| "supplied ((k, Some v) # ps) = (k, v) # supplied ps"

text \<open>A query string: \<open>?\<close> before the first \<open>key=value\<close>, \<open>&\<close> before every later one.\<close>

fun query_string :: "(string \<times> string) list \<Rightarrow> string" where
  "query_string [] = []"
| "query_string ((k, v) # ps) =
     ''?'' @ k @ ''='' @ v @ concat (map (\<lambda>(k, v). ''&'' @ k @ ''='' @ v) ps)"

section \<open>Reading the events\<close>

text \<open>The calls to the transport, as opposed to the lines printed on the console.\<close>

fun is_transport_call :: "event \<Rightarrow> bool" where
  "is_transport_call (HttpBegin u) = True"
| "is_transport_call HttpGET = True"
| "is_transport_call HttpGetString = True"
| "is_transport_call HttpEnd = True"
| "is_transport_call (GetRecord u) = True"
| "is_transport_call (AddRecord c j i e f) = True"
| "is_transport_call (SerialPrint s) = False"
| "is_transport_call (SerialPrintln s) = False"
| "is_transport_call (SerialPrintlnInt n) = False"

text \<open>
  An environment to run the operations in: the link is up, every GET answers 200 with
  the body \<^verbatim>\<open>{"id":"abc"}\<close>, \<^verbatim>\<open>getRecord\<close> answers the same body, \<^verbatim>\<open>addRecord\<close>
  succeeds, and the body has no \<^verbatim>\<open>code\<close> field, which the decoder reads as 0.
\<close>

definition sample_env :: env where
  \<open>sample_env =
     \<lparr>WiFi_status = WL_CONNECTED,
      http_GET = (\<lambda>u. 200),
      http_getString = (\<lambda>u. ''{"id":"abc"}''),
      pb_getRecord = (\<lambda>u. ''{"id":"abc"}''),
      pb_addRecord = (\<lambda>c j i e f. True),
      json_code = (\<lambda>b. 0)\<rparr>\<close>

definition sample_client :: PocketbaseArduino where
  "sample_client = new_PocketbaseArduino ''http://10.0.0.2:8090''"

section \<open>Calls through the accessors of one client\<close>

text \<open>
  Modelled from the spec: the member functions \<^verbatim>\<open>getRecord\<close> and \<^verbatim>\<open>addRecord\<close> of \<^verbatim>\<open>pb\<close>
  are not among the sources; only their calls are (lines 174 and 223). Section 3 of the
  specification says an accessor "holds a reference to the Client", so the \<^verbatim>\<open>pb\<close> they
  are called on is the one of the client, shared by all its accessors, and a member
  function may write to the object it is called on. What each of them leaves in \<^verbatim>\<open>pb\<close>
  is a parameter.
\<close>

record pb_writes =
  getRecord_writes :: "PocketBase \<Rightarrow> string \<Rightarrow> PocketBase"
  addRecord_writes ::
    "PocketBase \<Rightarrow> string \<Rightarrow> string \<Rightarrow> string option \<Rightarrow> string option \<Rightarrow> string option \<Rightarrow> PocketBase"

datatype request =
    GetList "32 word" "32 word" "string option" "string option" "string option" "string option" bool
  | GetOne string "string option" "string option"
  | Create string "string option" "string option" "string option"

text \<open>
  One call through the accessor \<^verbatim>\<open>collection(name)\<close> of a client: what the call returns
  with its events, and the client after the call. The accessor reads the \<^verbatim>\<open>pb\<close> of the
  client as it is at the time of the call. \<^verbatim>\<open>getList\<close> calls no member function of
  \<^verbatim>\<open>pb\<close> but \<^verbatim>\<open>getBaseUrl\<close>; \<^verbatim>\<open>getOne\<close> calls \<^verbatim>\<open>getRecord\<close> once, with the URL it has
  built (line 174); \<^verbatim>\<open>create\<close> calls \<^verbatim>\<open>addRecord\<close> once, with the collection name and its
  four arguments (line 223).
\<close>

fun call_through ::
  "env \<Rightarrow> pb_writes \<Rightarrow> PocketbaseArduino \<Rightarrow> string \<Rightarrow> request \<Rightarrow>
     (string \<times> event list) \<times> PocketbaseArduino" where
  "call_through env w c name (GetList page perPage sort' filter' expand fields' skipTotal) =
     (getList env (collection c name) page perPage sort' filter' expand fields' skipTotal, c)"
| "call_through env w c name (GetOne recordId expand fields') =
     (getOne env (collection c name) recordId expand fields',
      c\<lparr>pb := getRecord_writes w (pb c)
                 (getOne_url (collection c name) recordId expand fields')\<rparr>)"
| "call_through env w c name (Create jsonData id' expand fields') =
     (create env (collection c name) jsonData id' expand fields',
      c\<lparr>pb := addRecord_writes w (pb c)
                 (collectionName (collection c name)) jsonData id' expand fields'\<rparr>)"

text \<open>The client after a sequence of calls, each through the accessor of some collection
  and in an environment of its own (the network and the server may answer differently
  every time).\<close>

fun run_calls ::
  "pb_writes \<Rightarrow> PocketbaseArduino \<Rightarrow> (env \<times> string \<times> request) list \<Rightarrow> PocketbaseArduino" where
  "run_calls w c [] = c"
| "run_calls w c ((env, name, rq) # calls) =
     run_calls w (snd (call_through env w c name rq)) calls"


definition rebasing_writes :: pb_writes where
  "rebasing_writes =
     \<lparr>getRecord_writes = (\<lambda>p u. p\<lparr>BASE_URL := ''http://elsewhere''\<rparr>),
      addRecord_writes = (\<lambda>p n j i e f. p)\<rparr>"

section \<open>Properties of getList\<close>

text \<open>
  Claim C1. For every combination of the optional parameters of \<^verbatim>\<open>getList\<close>, the URL it
  builds is the records endpoint of the collection followed by the query string of
  exactly the parameters that have a value: \<open>page\<close> and \<open>perPage\<close> always, \<open>sort\<close>,
  \<open>filter\<close>, \<open>expand\<close> and \<open>fields\<close> when they are not null, in this order, and
  \<open>skipTotal=1\<close> last when the flag is true and not at all when it is false.
\<close>

theorem getList_url_query:
  "getList_url this page perPage sort' filter' expand fields' skipTotal =
     getBaseUrl (coll_pb this) @ ''/api/collections/'' @ collectionName this @ ''/records''
       @ query_string (supplied (getList_params page perPage sort' filter' expand fields' skipTotal))"
  by (cases sort'; cases filter'; cases expand; cases fields'; cases skipTotal)
     (simp_all add: getList_url_def getList_params_def)

theorem getList_url_query_witness:
  "getList_url (collection sample_client ''posts'')
       2 30 (Some ''-created'') None (Some ''author'') None True
     = ''http://10.0.0.2:8090/api/collections/posts/records?page=2&perPage=30&sort=-created&expand=author&skipTotal=1''"
  using getList_url_query [of "collection sample_client ''posts''"
      2 30 "Some ''-created''" None "Some ''author''" None True]
  by (simp add: getList_params_def String_uint_def utoa.simps digit_char_def collection_def
      sample_client_def new_PocketbaseArduino_def getBaseUrl_def)

text \<open>
  Claim C3. When the link is not up (\<^verbatim>\<open>WiFi.status()\<close> is not \<^verbatim>\<open>WL_CONNECTED\<close>),
  \<^verbatim>\<open>getList\<close> returns the empty string whatever its arguments are; the only thing it does
  is print one line on the console, and no call to the transport (\<^verbatim>\<open>begin\<close>, \<^verbatim>\<open>GET\<close>
  or any other) is made.
\<close>

theorem getList_no_connectivity:
  assumes "WiFi_status env \<noteq> WL_CONNECTED"
  shows "getList env this page perPage sort' filter' expand fields' skipTotal =
           ('''', [SerialPrintln ''WiFi Disconnected''])
         \<and> filter is_transport_call
             (snd (getList env this page perPage sort' filter' expand fields' skipTotal)) = []"
  using assms by (simp add: getList_def getList_try_def)

theorem getList_no_connectivity_witness:
  "WiFi_status (sample_env\<lparr>WiFi_status := WL_DISCONNECTED\<rparr>) \<noteq> WL_CONNECTED
   \<and> getList (sample_env\<lparr>WiFi_status := WL_DISCONNECTED\<rparr>) (collection sample_client ''posts'')
        1 30 None None None None False = ('''', [SerialPrintln ''WiFi Disconnected''])"
  using getList_no_connectivity [of "sample_env\<lparr>WiFi_status := WL_DISCONNECTED\<rparr>"
      "collection sample_client ''posts''" 1 30 None None None None False]
  by (simp add: sample_env_def)

text \<open>
  Claim C8, on the path where the request succeeds. The link is up and the GET answers
  200: \<^verbatim>\<open>getList\<close> calls \<^verbatim>\<open>begin\<close>, \<^verbatim>\<open>GET\<close> and \<^verbatim>\<open>getString\<close> and returns the body from
  inside the branch (line 114), so the \<^verbatim>\<open>http.end()\<close> of line 123, which the source
  comments as freeing the resources, is never reached.
\<close>

theorem getList_success_skips_end:
  \<open>getList sample_env (collection sample_client ''posts'') 1 30 None None None None False =
     (''{"id":"abc"}'',
      [HttpBegin ''http://10.0.0.2:8090/api/collections/posts/records?page=1&perPage=30'',
       HttpGET, SerialPrint ''HTTP Response code: '', SerialPrintlnInt 200, HttpGetString])
   \<and> HttpEnd \<notin> set (snd (getList sample_env (collection sample_client ''posts'')
                            1 30 None None None None False))\<close>
  by (simp add: getList_def getList_try_def getList_url_def sample_env_def sample_client_def
      collection_def new_PocketbaseArduino_def getBaseUrl_def String_uint_def utoa.simps
      digit_char_def)

text \<open>
  In general \<^verbatim>\<open>end\<close> is called exactly on the path where the request was made and the
  response code was not positive.
\<close>

lemma getList_end_called_iff:
  "HttpEnd \<in> set (snd (getList env this page perPage sort' filter' expand fields' skipTotal))
    \<longleftrightarrow> WiFi_status env = WL_CONNECTED
        \<and> http_GET env (getList_url this page perPage sort' filter' expand fields' skipTotal) \<le> 0"
  by (auto simp add: getList_def getList_try_def Let_def)

lemma getList_begin_called_iff:
  "HttpBegin (getList_url this page perPage sort' filter' expand fields' skipTotal)
      \<in> set (snd (getList env this page perPage sort' filter' expand fields' skipTotal))
    \<longleftrightarrow> WiFi_status env = WL_CONNECTED"
  by (auto simp add: getList_def getList_try_def Let_def)

section \<open>Properties of getOne\<close>

text \<open>
  Claim C2. For every record id, the URL \<^verbatim>\<open>getOne\<close> builds is the record's endpoint
  followed by \<open>?expand=E&fields=F\<close> when both parameters are set, by \<open>?expand=E\<close> when only
  \<open>expand\<close> is set, by \<open>?fields=F\<close> when only \<open>fields\<close> is set, and by nothing when
  neither is set.
\<close>

theorem getOne_url_cases:
  "getOne_url this recordId (Some E) (Some F) =
     getBaseUrl (coll_pb this) @ ''/api/collections/'' @ collectionName this @ ''/records/'' @ recordId
       @ ''?expand='' @ E @ ''&fields='' @ F
   \<and> getOne_url this recordId (Some E) None =
     getBaseUrl (coll_pb this) @ ''/api/collections/'' @ collectionName this @ ''/records/'' @ recordId
       @ ''?expand='' @ E
   \<and> getOne_url this recordId None (Some F) =
     getBaseUrl (coll_pb this) @ ''/api/collections/'' @ collectionName this @ ''/records/'' @ recordId
       @ ''?fields='' @ F
   \<and> getOne_url this recordId None None =
     getBaseUrl (coll_pb this) @ ''/api/collections/'' @ collectionName this @ ''/records/'' @ recordId"
  by (simp add: getOne_url_def)

text \<open>
  Claim C4. When the transport reports success, the body comes back as it is. For
  \<^verbatim>\<open>getList\<close> the transport is asked only when the link is up, and success is a positive
  response code: the result is the string \<^verbatim>\<open>getString\<close> gave. For \<^verbatim>\<open>getOne\<close> success is
  a body whose decoded \<^verbatim>\<open>code\<close> is neither 404 nor 403: the result is the string
  \<^verbatim>\<open>getRecord\<close> gave.
\<close>

theorem success_returns_body:
  "(WiFi_status env = WL_CONNECTED
      \<and> 0 < http_GET env (getList_url this page perPage sort' filter' expand fields' skipTotal)
    \<longrightarrow> fst (getList env this page perPage sort' filter' expand fields' skipTotal)
          = http_getString env (getList_url this page perPage sort' filter' expand fields' skipTotal))
   \<and> (json_code env (pb_getRecord env (getOne_url this recordId expand1 fields1)) \<noteq> 404
      \<and> json_code env (pb_getRecord env (getOne_url this recordId expand1 fields1)) \<noteq> 403
    \<longrightarrow> fst (getOne env this recordId expand1 fields1)
          = pb_getRecord env (getOne_url this recordId expand1 fields1))"
  by (simp add: getList_def getList_try_def getOne_def getOne_try_def Let_def)

theorem success_returns_body_witness:
  \<open>WiFi_status sample_env = WL_CONNECTED
   \<and> 0 < http_GET sample_env
           (getList_url (collection sample_client ''posts'') 1 30 None None None None False)
   \<and> fst (getList sample_env (collection sample_client ''posts'') 1 30 None None None None False)
       = ''{"id":"abc"}''
   \<and> json_code sample_env
        (pb_getRecord sample_env (getOne_url (collection sample_client ''posts'') ''abc'' None None))
       \<noteq> 404
   \<and> json_code sample_env
        (pb_getRecord sample_env (getOne_url (collection sample_client ''posts'') ''abc'' None None))
       \<noteq> 403
   \<and> fst (getOne sample_env (collection sample_client ''posts'') ''abc'' None None)
       = ''{"id":"abc"}''\<close>
  using success_returns_body [of sample_env "collection sample_client ''posts''"
      1 30 None None None None False "''abc''" None None]
  by (simp add: sample_env_def)

text \<open>
  Claim C5. When the decoded \<^verbatim>\<open>code\<close> of the body is 404, the \<^verbatim>\<open>try\<close> block of \<^verbatim>\<open>getOne\<close>
  throws the library's exception with the not-found message; when it is 403, with the
  forbidden message. In both cases the handler of \<^verbatim>\<open>getOne\<close> itself takes the exception
  and prints it, and the caller gets the empty string.
\<close>

theorem getOne_domain_errors:
  "(json_code env (pb_getRecord env (getOne_url this recordId expand fields')) = 404
    \<longrightarrow> fst (getOne_try env this recordId expand fields')
          = Thrown (PocketbaseArduinoException not_found_msg)
        \<and> getOne env this recordId expand fields' =
            ('''', [GetRecord (getOne_url this recordId expand fields'),
                    SerialPrintln (''Exception occurred during the request: '' @ not_found_msg)]))
   \<and> (json_code env (pb_getRecord env (getOne_url this recordId expand fields')) = 403
    \<longrightarrow> fst (getOne_try env this recordId expand fields')
          = Thrown (PocketbaseArduinoException forbidden_msg)
        \<and> getOne env this recordId expand fields' =
            ('''', [GetRecord (getOne_url this recordId expand fields'),
                    SerialPrintln (''Exception occurred during the request: '' @ forbidden_msg)]))"
  by (simp add: getOne_def getOne_try_def Let_def)

theorem getOne_domain_errors_witness:
  \<open>json_code (sample_env\<lparr>pb_getRecord := (\<lambda>u. ''{"code":404}''), json_code := (\<lambda>b. 404)\<rparr>)
      (pb_getRecord (sample_env\<lparr>pb_getRecord := (\<lambda>u. ''{"code":404}''), json_code := (\<lambda>b. 404)\<rparr>)
         (getOne_url (collection sample_client ''posts'') ''abc'' None None)) = 404
   \<and> fst (getOne (sample_env\<lparr>pb_getRecord := (\<lambda>u. ''{"code":404}''), json_code := (\<lambda>b. 404)\<rparr>)
          (collection sample_client ''posts'') ''abc'' None None) = ''''
   \<and> json_code (sample_env\<lparr>pb_getRecord := (\<lambda>u. ''{"code":403}''), json_code := (\<lambda>b. 403)\<rparr>)
      (pb_getRecord (sample_env\<lparr>pb_getRecord := (\<lambda>u. ''{"code":403}''), json_code := (\<lambda>b. 403)\<rparr>)
         (getOne_url (collection sample_client ''posts'') ''abc'' None None)) = 403
   \<and> fst (getOne (sample_env\<lparr>pb_getRecord := (\<lambda>u. ''{"code":403}''), json_code := (\<lambda>b. 403)\<rparr>)
          (collection sample_client ''posts'') ''abc'' None None) = ''''\<close>
  using
    getOne_domain_errors
      [of \<open>sample_env\<lparr>pb_getRecord := (\<lambda>u. ''{"code":404}''), json_code := (\<lambda>b. 404)\<rparr>\<close>
        "collection sample_client ''posts''" "''abc''" None None]
    getOne_domain_errors
      [of \<open>sample_env\<lparr>pb_getRecord := (\<lambda>u. ''{"code":403}''), json_code := (\<lambda>b. 403)\<rparr>\<close>
        "collection sample_client ''posts''" "''abc''" None None]
  by (simp add: sample_env_def)

text \<open>
  Claim C9. \<^verbatim>\<open>getOne\<close> compares the decoded \<^verbatim>\<open>code\<close> with 404 and with 403 and with
  nothing else: whatever the decoder makes of the body, any other value (0, as the
  decoder gives for a body without a numeric \<^verbatim>\<open>code\<close> or a body that is not JSON, or
  400, or 500) returns the body as \<^verbatim>\<open>getRecord\<close> gave it.
\<close>

theorem getOne_code_probe:
  "getOne env this recordId expand fields' =
     (let apiUrl = getOne_url this recordId expand fields';
          body = pb_getRecord env apiUrl;
          code = json_code env body
      in if code = 404 then
           ('''', [GetRecord apiUrl,
                   SerialPrintln (''Exception occurred during the request: '' @ not_found_msg)])
         else if code = 403 then
           ('''', [GetRecord apiUrl,
                   SerialPrintln (''Exception occurred during the request: '' @ forbidden_msg)])
         else (body, [GetRecord apiUrl]))"
  by (simp add: getOne_def getOne_try_def Let_def)

theorem getOne_code_probe_witness:
  \<open>getOne (sample_env\<lparr>pb_getRecord := (\<lambda>u. ''not json''), json_code := (\<lambda>b. 0)\<rparr>)
       (collection sample_client ''posts'') ''abc'' None None
     = (''not json'', [GetRecord ''http://10.0.0.2:8090/api/collections/posts/records/abc''])
   \<and> getOne (sample_env\<lparr>pb_getRecord := (\<lambda>u. ''{"code":400}''), json_code := (\<lambda>b. 400)\<rparr>)
       (collection sample_client ''posts'') ''abc'' None None
     = (''{"code":400}'', [GetRecord ''http://10.0.0.2:8090/api/collections/posts/records/abc''])
   \<and> getOne (sample_env\<lparr>pb_getRecord := (\<lambda>u. ''{"code":500}''), json_code := (\<lambda>b. 500)\<rparr>)
       (collection sample_client ''posts'') ''abc'' None None
     = (''{"code":500}'', [GetRecord ''http://10.0.0.2:8090/api/collections/posts/records/abc''])\<close>
  using
    getOne_code_probe
      [of \<open>sample_env\<lparr>pb_getRecord := (\<lambda>u. ''not json''), json_code := (\<lambda>b. 0)\<rparr>\<close>
        "collection sample_client ''posts''" "''abc''" None None]
    getOne_code_probe
      [of \<open>sample_env\<lparr>pb_getRecord := (\<lambda>u. ''{"code":400}''), json_code := (\<lambda>b. 400)\<rparr>\<close>
        "collection sample_client ''posts''" "''abc''" None None]
    getOne_code_probe
      [of \<open>sample_env\<lparr>pb_getRecord := (\<lambda>u. ''{"code":500}''), json_code := (\<lambda>b. 500)\<rparr>\<close>
        "collection sample_client ''posts''" "''abc''" None None]
  by (simp add: sample_env_def getOne_url_def collection_def sample_client_def
      new_PocketbaseArduino_def getBaseUrl_def)

section \<open>Properties of create\<close>

text \<open>
  Claim C6. Whatever its arguments, \<^verbatim>\<open>create\<close> first calls \<^verbatim>\<open>addRecord\<close> with the
  collection name and its own four arguments, and returns the empty string. When
  \<^verbatim>\<open>addRecord\<close> reports failure the \<^verbatim>\<open>try\<close> block throws the library's exception, the
  handler of \<^verbatim>\<open>create\<close> itself prints its message and the result is the empty string;
  when \<^verbatim>\<open>addRecord\<close> reports success the block returns the empty string.
\<close>

theorem create_result_empty:
  "fst (create env this jsonData id' expand fields') = ''''
   \<and> take 1 (snd (create env this jsonData id' expand fields'))
       = [AddRecord (collectionName this) jsonData id' expand fields']
   \<and> (\<not> pb_addRecord env (collectionName this) jsonData id' expand fields'
      \<longrightarrow> fst (create_try env this jsonData id' expand fields')
            = Thrown (PocketbaseArduinoException create_failed_msg)
        \<and> create env this jsonData id' expand fields'
            = ('''', [AddRecord (collectionName this) jsonData id' expand fields',
                      SerialPrintln create_failed_msg]))
   \<and> (pb_addRecord env (collectionName this) jsonData id' expand fields'
      \<longrightarrow> fst (create_try env this jsonData id' expand fields') = Returned ''''
        \<and> create env this jsonData id' expand fields'
            = ('''', [AddRecord (collectionName this) jsonData id' expand fields']))"
  by (simp add: create_def create_try_def Let_def)

theorem create_result_empty_witness:
  \<open>\<not> pb_addRecord (sample_env\<lparr>pb_addRecord := (\<lambda>c j i e f. False)\<rparr>)
        ''posts'' ''{"title":"t"}'' None None None
   \<and> create (sample_env\<lparr>pb_addRecord := (\<lambda>c j i e f. False)\<rparr>) (collection sample_client ''posts'')
        ''{"title":"t"}'' None None None
       = ('''', [AddRecord ''posts'' ''{"title":"t"}'' None None None,
                 SerialPrintln create_failed_msg])
   \<and> pb_addRecord sample_env ''posts'' ''{"title":"t"}'' None None None
   \<and> create sample_env (collection sample_client ''posts'') ''{"title":"t"}'' None None None
       = ('''', [AddRecord ''posts'' ''{"title":"t"}'' None None None])\<close>
  using
    create_result_empty [of \<open>sample_env\<lparr>pb_addRecord := (\<lambda>c j i e f. False)\<rparr>\<close>
      "collection sample_client ''posts''" \<open>''{"title":"t"}''\<close> None None None]
    create_result_empty [of sample_env
      "collection sample_client ''posts''" \<open>''{"title":"t"}''\<close> None None None]
  by (simp add: sample_env_def collection_def)

section \<open>Connectivity and the accessors\<close>

text \<open>
  Claim C10. Neither \<^verbatim>\<open>getOne\<close> nor \<^verbatim>\<open>create\<close> looks at the state of the link: with any
  other state \<open>w\<close> in place of the one of the environment the result and the events are
  the same, and in every environment the first event of \<^verbatim>\<open>getOne\<close> is its call of
  \<^verbatim>\<open>getRecord\<close> and the first event of \<^verbatim>\<open>create\<close> is its call of \<^verbatim>\<open>addRecord\<close>.
\<close>

theorem getOne_create_ignore_connectivity:
  "getOne (env\<lparr>WiFi_status := w\<rparr>) this recordId expand fields'
     = getOne env this recordId expand fields'
   \<and> take 1 (snd (getOne env this recordId expand fields'))
       = [GetRecord (getOne_url this recordId expand fields')]
   \<and> create (env\<lparr>WiFi_status := w\<rparr>) this jsonData id' expand1 fields1
       = create env this jsonData id' expand1 fields1
   \<and> take 1 (snd (create env this jsonData id' expand1 fields1))
       = [AddRecord (collectionName this) jsonData id' expand1 fields1]"
  by (simp add: getOne_def getOne_try_def create_def create_try_def Let_def)

theorem getOne_create_ignore_connectivity_witness:
  \<open>getOne (sample_env\<lparr>WiFi_status := WL_DISCONNECTED\<rparr>) (collection sample_client ''posts'')
      ''abc'' None None
     = (''{"id":"abc"}'', [GetRecord ''http://10.0.0.2:8090/api/collections/posts/records/abc''])
   \<and> create (sample_env\<lparr>WiFi_status := WL_DISCONNECTED\<rparr>) (collection sample_client ''posts'')
      ''{"title":"t"}'' None None None
     = ('''', [AddRecord ''posts'' ''{"title":"t"}'' None None None])\<close>
  using getOne_create_ignore_connectivity
      [where env = sample_env and w = WL_DISCONNECTED
         and this = "collection sample_client ''posts''"
         and recordId = "''abc''" and expand = None and fields' = None
         and jsonData = \<open>''{"title":"t"}''\<close> and id' = None and ?expand1.0 = None
         and ?fields1.0 = None]
  by (simp add: sample_env_def getOne_def getOne_try_def getOne_url_def create_def
      create_try_def collection_def sample_client_def new_PocketbaseArduino_def getBaseUrl_def)






text \<open>
  The condition on the absent member functions is needed, and the \<^verbatim>\<open>pb\<close> of the model
  is shared: were \<^verbatim>\<open>getRecord\<close> to overwrite the base URL, one \<^verbatim>\<open>getOne\<close> through
  \<^verbatim>\<open>collection("y")\<close> would change the URL that \<^verbatim>\<open>collection("x")\<close> builds.
\<close>

lemma shared_pb_write_reaches_other_accessor:
  "getOne_url (collection sample_client ''x'') ''r2'' None None
     = ''http://10.0.0.2:8090/api/collections/x/records/r2''
   \<and> getOne_url
        (collection
           (run_calls rebasing_writes sample_client [(sample_env, ''y'', GetOne ''r1'' None None)])
           ''x'')
        ''r2'' None None
     = ''http://elsewhere/api/collections/x/records/r2''"
  by (simp add: rebasing_writes_def sample_client_def new_PocketbaseArduino_def collection_def
      getBaseUrl_def getOne_url_def)

end
